theory Spec2Isabelle
  imports Complex_Main "HOL-Library.Sublist"
begin

section \<open>Strings\<close>

text \<open>
  Python strings are modelled as \<^typ>\<open>string\<close>, one \<^typ>\<open>char\<close> per character; the
  two emoji markers of the sample titles, which do not fit a \<^typ>\<open>char\<close>, are written as
  their UTF-8 bytes. \<open>str.lower\<close> is modelled on the ASCII letters; every keyword and
  every override name of the program is ASCII. The case mapping of characters outside
  ASCII is not modelled: such a character is left as it is.
\<close>

definition lower_char :: "char \<Rightarrow> char" where
  "lower_char c =
     (let n = (of_char c :: nat) in if 65 \<le> n \<and> n \<le> 90 then char_of (n + 32) else c)"

definition lower :: "string \<Rightarrow> string" where
  "lower s = map lower_char s"

text \<open>\<open>needle in haystack\<close> on strings: the needle occurs as a contiguous run.\<close>

fun py_in :: "string \<Rightarrow> string \<Rightarrow> bool" where
  "py_in needle [] = (needle = [])"
| "py_in needle (c # cs) = (prefix needle (c # cs) \<or> py_in needle cs)"

section \<open>Severity classification (incois\_scraper.py)\<close>

definition emergency_keywords :: "string list" where
  "emergency_keywords =
     [''tsunami'', ''cyclone'', ''severe cyclone'', ''very severe cyclone'',
      ''super cyclone'', ''red alert'', ''emergency'', ''evacuation'',
      ''extreme'', ''dangerous'', ''life threatening'', ''catastrophic'',
      ''super cyclonic storm'', ''extremely severe'']"

definition warning_keywords :: "string list" where
  "warning_keywords =
     [''warning'', ''heavy rain'', ''flood'', ''high tide'', ''storm surge'',
      ''orange alert'', ''yellow alert'', ''caution'', ''advisory'',
      ''rough sea'', ''high waves'', ''strong wind'', ''depression'',
      ''cyclonic storm'', ''deep depression'']"

text \<open>
  The loop \<open>for keyword in keywords: if keyword.lower() in text_lower: return ...\<close>:
  \<open>True\<close> when the loop returns at some keyword, \<open>False\<close> when it falls through.
\<close>

fun keyword_loop :: "string list \<Rightarrow> string \<Rightarrow> bool" where
  "keyword_loop [] text_lower = False"
| "keyword_loop (keyword # rest) text_lower =
     (if py_in (lower keyword) text_lower then True else keyword_loop rest text_lower)"

definition determine_severity :: "string \<Rightarrow> string" where
  "determine_severity text =
     (let text_lower = lower text in
      if keyword_loop emergency_keywords text_lower then ''emergency''
      else if keyword_loop warning_keywords text_lower then ''warning''
      else ''info'')"

text \<open>
  The claim's wording: a keyword occurs in a text as a case-insensitive substring when
  the text has a contiguous run of characters that equals the keyword up to case.
\<close>

definition occurs_ci :: "string \<Rightarrow> string \<Rightarrow> bool" where
  "occurs_ci keyword text =
     (\<exists>before run after. text = before @ run @ after \<and> lower run = lower keyword)"

section \<open>Geocoding (incois\_scraper.py)\<close>

text \<open>
  The external lookup \<open>self.geocoder.geocode\<close> is a parameter: given the query it
  raises (\<open>Inl\<close>), finds nothing (\<open>Inr None\<close>) or returns a position. The model returns,
  with the result, the list of the queries that were issued to it.
\<close>

type_synonym geocoder = "string \<Rightarrow> string + (real \<times> real) option"

definition geocode_location :: "geocoder \<Rightarrow> string \<Rightarrow> (real \<times> real) option \<times> string list" where
  "geocode_location geocode location =
     (let location_lower = lower location in
      if py_in ''bay of bengal'' location_lower then (Some (15.0, 87.0), [])
      else if py_in ''arabian sea'' location_lower then (Some (15.0, 68.0), [])
      else if py_in ''indian ocean'' location_lower then (Some (10.0, 75.0), [])
      else
        (let search_query = location @ '', India'' in
         case geocode search_query of
           Inl e \<Rightarrow> (None, [search_query])
         | Inr None \<Rightarrow> (None, [search_query])
         | Inr (Some (latitude, longitude)) \<Rightarrow> (Some (latitude, longitude), [search_query])))"

section \<open>Deduplication and fallback (incois\_scraper.py)\<close>

text \<open>The dataclass \<open>Alert\<close> of incois\_scraper.py; its fields carry the prefix \<open>sa_\<close>.\<close>

record scraped_alert =
  sa_title :: string
  sa_message :: string
  sa_severity :: string
  sa_source :: string
  sa_lat :: "real option"
  sa_lng :: "real option"
  sa_time :: string

text \<open>The two counters of the scraper object; \<open>__init__\<close> sets both to 0.\<close>

record scraper =
  alerts_processed :: nat
  alerts_skipped :: nat

definition potential_feeds :: "string list" where
  "potential_feeds =
     [''https://incois.gov.in/portal/rss/highwave.xml'',
      ''https://incois.gov.in/portal/rss/tsunami.xml'',
      ''https://incois.gov.in/portal/rss/alerts.xml'',
      ''https://incois.gov.in/rss/highwave.xml'',
      ''https://incois.gov.in/rss/tsunami.xml'',
      ''https://incois.gov.in/rss.xml'',
      ''https://incois.gov.in/feed.xml'']"

definition scraping_urls :: "string list" where
  "scraping_urls =
     [''https://incois.gov.in/portal/osf'',
      ''https://incois.gov.in/portal/tsunami'',
      ''https://incois.gov.in/portal/highwave'',
      ''https://incois.gov.in/portal/datainfo/hwforecast.jsp'',
      ''https://incois.gov.in/portal/datainfo/tsunamiwarning.jsp'',
      ''https://incois.gov.in/portal/announcements.jsp'',
      ''https://incois.gov.in'']"

definition siren :: string where
  "siren = [CHR 0xF0, CHR 0x9F, CHR 0x9A, CHR 0xA8]"

definition warning_sign :: string where
  "warning_sign = [CHR 0xE2, CHR 0x9A, CHR 0xA0, CHR 0xEF, CHR 0xB8, CHR 0x8F]"

text \<open>
  \<open>_generate_sample_alerts\<close>. The argument \<open>now\<close> gives the three readings of
  \<open>datetime.now(timezone.utc).isoformat()\<close>.
\<close>

definition generate_sample_alerts :: "(nat \<Rightarrow> string) \<Rightarrow> scraped_alert list" where
  "generate_sample_alerts now =
     [\<lparr>sa_title = siren @ '' High Wave Alert - Bay of Bengal'',
       sa_message = ''Sea conditions are rough to very rough with wave heights of 3-4 meters expected along Andhra Pradesh and Odisha coasts. Fishermen are advised not to venture into the sea.'',
       sa_severity = ''warning'', sa_source = ''INCOIS'',
       sa_lat = Some 17.7, sa_lng = Some 83.3, sa_time = now 0\<rparr>,
      \<lparr>sa_title = warning_sign @ '' Ocean State Forecast'',
       sa_message = ''Moderate sea conditions expected along Tamil Nadu coast with wave heights of 1.5-2.5 meters. Light to moderate rainfall predicted.'',
       sa_severity = ''info'', sa_source = ''INCOIS'',
       sa_lat = Some 13.0827, sa_lng = Some 80.2707, sa_time = now 1\<rparr>,
      \<lparr>sa_title = siren @ '' Cyclone Warning - Arabian Sea'',
       sa_message = ''A deep depression in Arabian Sea is likely to intensify into a cyclonic storm. Coastal areas of Gujarat and Maharashtra advised to take precautionary measures.'',
       sa_severity = ''emergency'', sa_source = ''INCOIS'',
       sa_lat = Some 20.0, sa_lng = Some 70.0, sa_time = now 2\<rparr>]"

text \<open>
  The first loop of \<open>fetch_incois_alerts\<close>. \<open>_try_rss_feed\<close> fetches and parses a
  feed and catches every exception itself; what it returns for a URL is a parameter.
\<close>

fun rss_loop :: "(string \<Rightarrow> scraped_alert list) \<Rightarrow> string list \<Rightarrow> scraped_alert list
    \<Rightarrow> scraped_alert list" where
  "rss_loop try_rss_feed [] all_alerts = all_alerts"
| "rss_loop try_rss_feed (feed_url # rest) all_alerts =
     rss_loop try_rss_feed rest (all_alerts @ try_rss_feed feed_url)"

text \<open>The second loop, over the pages, with its \<open>break\<close> at five alerts.\<close>

fun web_loop :: "(string \<Rightarrow> scraped_alert list) \<Rightarrow> string list \<Rightarrow> scraped_alert list
    \<Rightarrow> scraped_alert list" where
  "web_loop scrape_webpage [] all_alerts = all_alerts"
| "web_loop scrape_webpage (url # rest) all_alerts =
     (let all_alerts' = all_alerts @ scrape_webpage url in
      if length all_alerts' \<ge> 5 then all_alerts'
      else web_loop scrape_webpage rest all_alerts')"

definition message_key :: "scraped_alert \<Rightarrow> string" where
  "message_key alert = lower (take 100 (sa_message alert))"

text \<open>
  The loop that removes duplicates. Its state is \<open>unique_alerts\<close>, \<open>seen_messages\<close>
  and the scraper object with its two counters.
\<close>

fun dedup_loop :: "scraped_alert list \<Rightarrow> scraped_alert list \<times> string set \<times> scraper
    \<Rightarrow> scraped_alert list \<times> string set \<times> scraper" where
  "dedup_loop [] state = state"
| "dedup_loop (alert # rest) (unique_alerts, seen_messages, self) =
     (if message_key alert \<notin> seen_messages
      then dedup_loop rest
             (unique_alerts @ [alert], insert (message_key alert) seen_messages,
              self\<lparr>alerts_processed := alerts_processed self + 1\<rparr>)
      else dedup_loop rest
             (unique_alerts, seen_messages,
              self\<lparr>alerts_skipped := alerts_skipped self + 1\<rparr>))"

definition fetch_incois_alerts :: "(string \<Rightarrow> scraped_alert list) \<Rightarrow> (string \<Rightarrow> scraped_alert list)
    \<Rightarrow> (nat \<Rightarrow> string) \<Rightarrow> scraper \<Rightarrow> scraped_alert list \<times> scraper" where
  "fetch_incois_alerts try_rss_feed scrape_webpage now self =
     (let all_alerts = rss_loop try_rss_feed potential_feeds [];
          all_alerts = web_loop scrape_webpage scraping_urls all_alerts;
          all_alerts = (if all_alerts = [] then generate_sample_alerts now else all_alerts);
          (unique_alerts, seen_messages, self) = dedup_loop all_alerts ([], {}, self)
      in if unique_alerts = []
         then (generate_sample_alerts now,
               self\<lparr>alerts_processed := length (generate_sample_alerts now)\<rparr>)
         else (unique_alerts, self))"

text \<open>
  The claim's wording of deduplication: the alert at position \<open>i\<close> is kept when its key
  has not occurred at an earlier position.
\<close>

definition kept_positions :: "scraped_alert list \<Rightarrow> nat list" where
  "kept_positions alerts =
     filter (\<lambda>i. \<forall>j\<in>{0..<i}. message_key (alerts ! j) \<noteq> message_key (alerts ! i))
       [0..<length alerts]"

text \<open>The same in recursive form, from a set of keys already seen; used in the proofs.\<close>

fun first_occurrences :: "('a \<Rightarrow> 'k) \<Rightarrow> 'k set \<Rightarrow> 'a list \<Rightarrow> 'a list" where
  "first_occurrences key seen [] = []"
| "first_occurrences key seen (x # xs) =
     (if key x \<in> seen then first_occurrences key seen xs
      else x # first_occurrences key (insert (key x) seen) xs)"

text \<open>The counters as \<open>__init__\<close> leaves them.\<close>

definition init_scraper :: scraper where
  "init_scraper = \<lparr>alerts_processed = 0, alerts_skipped = 0\<rparr>"

section \<open>Python values (main.py)\<close>

text \<open>
  What \<open>json.load\<close> returns, and what the fields of a row may hold. A Python \<open>float\<close> is
  idealised as a \<^typ>\<open>real\<close>: rounding errors, infinities and NaN are outside the model.
  A dictionary is an association list, read by its first binding of a key.
\<close>

datatype pyval =
    PNone
  | PBool bool
  | PInt int
  | PFloat real
  | PStr string
  | PList "pyval list"
  | PDict "(string \<times> pyval) list"

datatype py_error = TypeError | ValueError | OverflowError

text \<open>\<open>d.get(key, dflt)\<close>.\<close>

definition dict_get :: "(string \<times> pyval) list \<Rightarrow> string \<Rightarrow> pyval \<Rightarrow> pyval" where
  "dict_get d key dflt = (case map_of d key of None \<Rightarrow> dflt | Some v \<Rightarrow> v)"

text \<open>The truth value of a Python value, as \<open>not title\<close> tests it.\<close>

fun truthy :: "pyval \<Rightarrow> bool" where
  "truthy PNone = False"
| "truthy (PBool b) = b"
| "truthy (PInt i) = (i \<noteq> 0)"
| "truthy (PFloat r) = (r \<noteq> 0)"
| "truthy (PStr s) = (s \<noteq> [])"
| "truthy (PList xs) = (xs \<noteq> [])"
| "truthy (PDict d) = (d \<noteq> [])"

text \<open>
  The builtins and the surroundings that \<open>load_alerts_from_json\<close> reads:
  the working directory, the clock (\<open>utcnow i\<close> is what \<open>datetime.utcnow()\<close> returns while
  record \<open>i\<close> is built), \<open>float\<close> on a string, \<open>str\<close> on a float, a list or a
  dictionary, and the message of the exception that the final commit raises on a value
  it cannot store.
\<close>

type_synonym datetime = nat

record env =
  getcwd :: string
  utcnow :: "nat \<Rightarrow> datetime"
  float_of_str :: "string \<Rightarrow> real option"
  repr :: "pyval \<Rightarrow> string"
  statement_error :: "pyval \<Rightarrow> string"

text \<open>
  \<open>float(v)\<close>; \<open>None\<close> when it raises. On an \<open>int\<close> it raises \<open>OverflowError\<close> when the
  nearest float is beyond the largest one, that is from \<open>2^1024 - 2^970\<close> on.
\<close>

definition float_limit :: int where
  "float_limit = 2 ^ 1024 - 2 ^ 970"

fun py_float :: "env \<Rightarrow> pyval \<Rightarrow> real option" where
  "py_float e PNone = None"
| "py_float e (PBool b) = Some (if b then 1 else 0)"
| "py_float e (PInt i) = (if \<bar>i\<bar> < float_limit then Some (of_int i) else None)"
| "py_float e (PFloat r) = Some r"
| "py_float e (PStr s) = float_of_str e s"
| "py_float e (PList xs) = None"
| "py_float e (PDict d) = None"

definition digit_char :: "nat \<Rightarrow> char" where
  "digit_char d = char_of (48 + d)"

fun show_nat :: "nat \<Rightarrow> string" where
  "show_nat n = (if n < 10 then [digit_char n] else show_nat (n div 10) @ [digit_char (n mod 10)])"

declare show_nat.simps [simp del]

definition show_int :: "int \<Rightarrow> string" where
  "show_int i = (if i < 0 then CHR ''-'' # show_nat (nat (- i)) else show_nat (nat i))"

text \<open>\<open>str(v)\<close>.\<close>

fun py_str :: "env \<Rightarrow> pyval \<Rightarrow> string" where
  "py_str e PNone = ''None''"
| "py_str e (PBool b) = (if b then ''True'' else ''False'')"
| "py_str e (PInt i) = show_int i"
| "py_str e (PStr s) = s"
| "py_str e v = repr e v"

text \<open>The name of the type of a value, as an \<open>AttributeError\<close> prints it.\<close>

fun type_name :: "pyval \<Rightarrow> string" where
  "type_name PNone = ''NoneType''"
| "type_name (PBool b) = ''bool''"
| "type_name (PInt i) = ''int''"
| "type_name (PFloat r) = ''float''"
| "type_name (PStr s) = ''str''"
| "type_name (PList xs) = ''list''"
| "type_name (PDict d) = ''dict''"

section \<open>The store and its synchronisation (main.py)\<close>

text \<open>
  The table class \<open>Alert\<close> of main.py. In a row under construction \<open>lat\<close> and \<open>lng\<close> hold
  what the constructor is given: \<open>PNone\<close>, the result of \<open>float\<close>, or the value of the
  record as it was read. The store keeps the rows in the order of insertion; \<open>alert_id\<close>
  is the primary key, absent until the row is written.
\<close>

record alert =
  alert_id :: "nat option"
  source :: string
  severity :: string
  title :: string
  message :: string
  time :: datetime
  lat :: pyval
  lng :: pyval

text \<open>The state of the application: the rows of the table and the global \<open>last_error\<close>.\<close>

record app_state =
  alert_table :: "alert list"
  last_error :: "string option"

text \<open>
  The exchange file as \<open>load_alerts_from_json\<close> finds it: not there, there but \<open>open\<close> or
  \<open>json.load\<close> raises (with the message of the exception), or parsed.
\<close>

datatype exchange_file = Missing | Unreadable string | Parsed pyval

text \<open>The dictionary that \<open>load_alerts_from_json\<close> returns, and its keys.\<close>

datatype load_result =
    Summary nat nat "string list"
  | Failure string

fun result_keys :: "load_result \<Rightarrow> string list" where
  "result_keys (Summary n k details) = [''inserted'', ''skipped'', ''skipped_details'']"
| "result_keys (Failure msg) = [''error'', ''trace'']"

text \<open>The local variables of the loop, and the rows added to the session.\<close>

record sync_acc =
  inserted :: nat
  skipped :: nat
  skipped_details :: "string list"
  session :: "alert list"

definition fresh_acc :: sync_acc where
  "fresh_acc = \<lparr>inserted = 0, skipped = 0, skipped_details = [], session = []\<rparr>"

definition skip_record :: "string \<Rightarrow> sync_acc \<Rightarrow> sync_acc" where
  "skip_record reason acc =
     acc\<lparr>skipped := skipped acc + 1, skipped_details := skipped_details acc @ [reason]\<rparr>"

definition add_record :: "alert \<Rightarrow> sync_acc \<Rightarrow> sync_acc" where
  "add_record a acc = acc\<lparr>session := session acc @ [a], inserted := inserted acc + 1\<rparr>"

text \<open>
  One pass of the loop body for the record \<open>item\<close> at index \<open>idx\<close>. An \<open>item\<close> that is not
  a dictionary has no \<open>get\<close>: the \<open>AttributeError\<close> is caught by the inner handler.
\<close>

definition load_item :: "env \<Rightarrow> nat \<Rightarrow> pyval \<Rightarrow> sync_acc \<Rightarrow> sync_acc" where
  "load_item e idx item acc =
     (case item of
        PDict d \<Rightarrow>
          (let title = dict_get d ''title'' PNone;
               message = dict_get d ''message'' PNone;
               severity = dict_get d ''severity'' (PStr ''info'');
               source = dict_get d ''source'' (PStr ''unknown'');
               lat = dict_get d ''lat'' PNone;
               lng = dict_get d ''lng'' PNone;
               build = (\<lambda>lat lng.
                 \<lparr>alert_id = None, source = py_str e source, severity = py_str e severity,
                  title = py_str e title, message = py_str e message, time = utcnow e idx,
                  lat = lat, lng = lng\<rparr>)
           in if \<not> truthy title \<or> \<not> truthy message
              then skip_record (''idx '' @ show_nat idx @ '': missing title/message'') acc
              else if lat \<noteq> PNone \<and> lng \<noteq> PNone
              then (case py_float e lat of
                      None \<Rightarrow> skip_record (''idx '' @ show_nat idx @ '': invalid lat/lng'') acc
                    | Some lat' \<Rightarrow>
                        (case py_float e lng of
                           None \<Rightarrow> skip_record (''idx '' @ show_nat idx @ '': invalid lat/lng'') acc
                         | Some lng' \<Rightarrow> add_record (build (PFloat lat') (PFloat lng')) acc))
              else add_record (build lat lng) acc)
      | _ \<Rightarrow>
          skip_record
            (''idx '' @ show_nat idx @ '': exception '' @ [CHR 0x27] @ type_name item @ [CHR 0x27]
               @ '' object has no attribute '' @ [CHR 0x27] @ ''get'' @ [CHR 0x27])
            acc)"

text \<open>\<open>for idx, item in enumerate(data)\<close>, from the index \<open>idx\<close> on.\<close>

fun load_loop :: "env \<Rightarrow> nat \<Rightarrow> pyval list \<Rightarrow> sync_acc \<Rightarrow> sync_acc" where
  "load_loop e idx [] acc = acc"
| "load_loop e idx (item # rest) acc = load_loop e (Suc idx) rest (load_item e idx item acc)"

text \<open>
  The final \<open>session.commit()\<close> writes the added rows to the table, emptied before, in the
  order they were added; the keys count from 1. The columns \<open>lat\<close> and \<open>lng\<close> are declared
  \<open>float\<close>: a value that is not \<open>None\<close> is stored as \<open>float\<close> of it, and a value that
  \<open>float\<close> refuses makes the commit raise. The commit lies outside the \<open>try\<close> of the loop
  body: when it raises, no row of the session is written and the exception reaches the
  outer handler.
\<close>

definition bind_float :: "env \<Rightarrow> pyval \<Rightarrow> string + pyval" where
  "bind_float e v =
     (if v = PNone then Inr PNone
      else (case py_float e v of
              None \<Rightarrow> Inl (statement_error e v)
            | Some x \<Rightarrow> Inr (PFloat x)))"

fun flush_rows :: "env \<Rightarrow> nat \<Rightarrow> alert list \<Rightarrow> string + alert list" where
  "flush_rows e key [] = Inr []"
| "flush_rows e key (a # rest) =
     (case bind_float e (lat a) of
        Inl msg \<Rightarrow> Inl msg
      | Inr lat' \<Rightarrow>
          (case bind_float e (lng a) of
             Inl msg \<Rightarrow> Inl msg
           | Inr lng' \<Rightarrow>
               (case flush_rows e (Suc key) rest of
                  Inl msg \<Rightarrow> Inl msg
                | Inr rows \<Rightarrow> Inr (a\<lparr>alert_id := Some key, lat := lat', lng := lng'\<rparr> # rows))))"

definition commit_rows :: "env \<Rightarrow> alert list \<Rightarrow> string + alert list" where
  "commit_rows e rows = flush_rows e 1 rows"

definition set_last_error :: "string \<Rightarrow> app_state \<Rightarrow> app_state" where
  "set_last_error msg st = st\<lparr>last_error := Some msg\<rparr>"

definition load_alerts_from_json :: "env \<Rightarrow> (string \<Rightarrow> exchange_file) \<Rightarrow> string \<Rightarrow> app_state
    \<Rightarrow> load_result \<times> app_state" where
  "load_alerts_from_json e files file_path st =
     (case files file_path of
        Missing \<Rightarrow>
          (let msg = file_path @ '' not found in cwd: '' @ getcwd e
           in (Failure msg, set_last_error msg st))
      | Unreadable msg \<Rightarrow> (Failure msg, set_last_error msg st)
      | Parsed (PList data) \<Rightarrow>
          (let st = st\<lparr>alert_table := []\<rparr>;
               acc = load_loop e 0 data fresh_acc
           in case commit_rows e (session acc) of
                Inl msg \<Rightarrow> (Failure msg, set_last_error msg st)
              | Inr rows \<Rightarrow>
                  (Summary (inserted acc) (skipped acc) (skipped_details acc),
                   st\<lparr>alert_table := alert_table st @ rows\<rparr>))
      | Parsed _ \<Rightarrow>
          (let msg = ''alerts.json must contain a JSON array (list) of alert objects.''
           in (Failure msg, set_last_error msg st)))"

text \<open>
  The claims' wording for the records of a batch. A field of a record, with or without a
  default; a well-formed record: an object with a non-empty \<open>title\<close> and \<open>message\<close> whose
  \<open>lat\<close> and \<open>lng\<close>, where present, can be coerced to a float; a record with invalid
  coordinates: both \<open>lat\<close> and \<open>lng\<close> present, and one of them not coercible; the row that
  stands in the store for the well-formed record at index \<open>idx\<close>: its texts, \<open>info\<close> and
  \<open>unknown\<close> where severity and source are absent, the time of the synchronisation, its
  coordinates as floats, and the key \<open>idx + 1\<close>.
\<close>

fun is_list :: "pyval \<Rightarrow> bool" where
  "is_list (PList xs) = True"
| "is_list v = False"

definition field :: "string \<Rightarrow> pyval \<Rightarrow> pyval" where
  "field key item = (case item of PDict d \<Rightarrow> dict_get d key PNone | _ \<Rightarrow> PNone)"

definition field_or :: "string \<Rightarrow> pyval \<Rightarrow> pyval \<Rightarrow> pyval" where
  "field_or key dflt item = (case item of PDict d \<Rightarrow> dict_get d key dflt | _ \<Rightarrow> dflt)"

definition stored_float :: "env \<Rightarrow> pyval \<Rightarrow> pyval" where
  "stored_float e v = (case py_float e v of None \<Rightarrow> PNone | Some x \<Rightarrow> PFloat x)"

definition stored_record :: "env \<Rightarrow> nat \<Rightarrow> pyval \<Rightarrow> alert" where
  "stored_record e idx item =
     \<lparr>alert_id = Some (Suc idx),
      source = py_str e (field_or ''source'' (PStr ''unknown'') item),
      severity = py_str e (field_or ''severity'' (PStr ''info'') item),
      title = py_str e (field ''title'' item),
      message = py_str e (field ''message'' item),
      time = utcnow e idx,
      lat = stored_float e (field ''lat'' item),
      lng = stored_float e (field ''lng'' item)\<rparr>"

definition well_formed :: "env \<Rightarrow> pyval \<Rightarrow> bool" where
  "well_formed e item =
     (case item of
        PDict d \<Rightarrow>
          truthy (field ''title'' item) \<and> truthy (field ''message'' item) \<and>
          (field ''lat'' item = PNone \<or> py_float e (field ''lat'' item) \<noteq> None) \<and>
          (field ''lng'' item = PNone \<or> py_float e (field ''lng'' item) \<noteq> None)
      | _ \<Rightarrow> False)"


text \<open>The effect of one run of the loop after another, on the local variables.\<close>

definition merge_acc :: "sync_acc \<Rightarrow> sync_acc \<Rightarrow> sync_acc" where
  "merge_acc a b =
     \<lparr>inserted = inserted a + inserted b, skipped = skipped a + skipped b,
      skipped_details = skipped_details a @ skipped_details b,
      session = session a @ session b\<rparr>"


section \<open>The proximity query (main.py)\<close>

definition radians :: "real \<Rightarrow> real" where
  "radians x = x * pi / 180"

text \<open>\<open>math.atan2(y, x)\<close> on the reals.\<close>

definition atan2 :: "real \<Rightarrow> real \<Rightarrow> real" where
  "atan2 y x =
     (if x > 0 then arctan (y / x)
      else if x < 0 then (if y \<ge> 0 then arctan (y / x) + pi else arctan (y / x) - pi)
      else if y > 0 then pi / 2
      else if y < 0 then - (pi / 2)
      else 0)"

text \<open>
  \<open>math.sqrt\<close> raises \<open>ValueError\<close> on a negative argument. On the reals \<open>a\<close> lies
  between 0 and 1 and the branch is never taken; in floating-point arithmetic \<open>a\<close> can
  exceed 1 by rounding, for two points that are nearly antipodal, and that is outside the
  model.
\<close>

definition haversine_km :: "real \<Rightarrow> real \<Rightarrow> real \<Rightarrow> real \<Rightarrow> py_error + real" where
  "haversine_km lat1 lon1 lat2 lon2 =
     (let R = 6371.0;
          dlat = radians (lat2 - lat1);
          dlon = radians (lon2 - lon1);
          a = (sin (dlat / 2))\<^sup>2 + cos (radians lat1) * cos (radians lat2) * (sin (dlon / 2))\<^sup>2
      in if a < 0 \<or> 1 - a < 0 then Inl ValueError
         else (let c = 2 * atan2 (sqrt a) (sqrt (1 - a)) in Inr (R * c)))"

text \<open>
  The call \<open>haversine_km(lat, lng, a.lat, a.lng)\<close> on the fields of a row: the arithmetic
  raises \<open>TypeError\<close> on a field that is not a number.
\<close>

fun as_number :: "pyval \<Rightarrow> real option" where
  "as_number (PBool b) = Some (if b then 1 else 0)"
| "as_number (PInt i) = Some (of_int i)"
| "as_number (PFloat r) = Some r"
| "as_number v = None"

definition row_distance :: "real \<Rightarrow> real \<Rightarrow> alert \<Rightarrow> py_error + real" where
  "row_distance lat0 lng0 a =
     (case as_number (lat a) of
        None \<Rightarrow> Inl TypeError
      | Some lat2 \<Rightarrow>
          (case as_number (lng a) of
             None \<Rightarrow> Inl TypeError
           | Some lon2 \<Rightarrow> haversine_km lat0 lng0 lat2 lon2))"

text \<open>
  \<open>round(x, ndigits)\<close> on the reals: to the nearest multiple of \<open>10^-ndigits\<close>, a tie to
  the even one.
\<close>

definition py_round :: "real \<Rightarrow> nat \<Rightarrow> real" where
  "py_round x ndigits =
     (let s = x * 10 ^ ndigits;
          f = \<lfloor>s\<rfloor>;
          d = s - of_int f;
          q = (if d < 1 / 2 then f else if d > 1 / 2 then f + 1
               else if even f then f else f + 1)
      in of_int q / 10 ^ ndigits)"

text \<open>
  The loop of \<open>alerts_nearby\<close>. A row of the answer is the row of the table with its
  \<open>distance_km\<close>.
\<close>

fun nearby_loop :: "real \<Rightarrow> real \<Rightarrow> real \<Rightarrow> alert list \<Rightarrow> (alert \<times> real) list
    \<Rightarrow> (alert \<times> real) list" where
  "nearby_loop lat0 lng0 radius_km [] nearby = nearby"
| "nearby_loop lat0 lng0 radius_km (a # rest) nearby =
     (if lat a = PNone \<or> lng a = PNone then nearby_loop lat0 lng0 radius_km rest nearby
      else (case row_distance lat0 lng0 a of
              Inl exn \<Rightarrow> nearby_loop lat0 lng0 radius_km rest nearby
            | Inr dist_km \<Rightarrow>
                if dist_km \<le> radius_km
                then nearby_loop lat0 lng0 radius_km rest (nearby @ [(a, py_round dist_km 2)])
                else nearby_loop lat0 lng0 radius_km rest nearby))"

definition alerts_nearby :: "env \<Rightarrow> (string \<Rightarrow> exchange_file) \<Rightarrow> real \<Rightarrow> real \<Rightarrow> real
    \<Rightarrow> app_state \<Rightarrow> (alert \<times> real) list \<times> app_state" where
  "alerts_nearby e files lat0 lng0 radius_km st =
     (let (load_result, st) = load_alerts_from_json e files ''alerts.json'' st;
          alerts = alert_table st
      in (nearby_loop lat0 lng0 radius_km alerts [], st))"

text \<open>
  The great-circle distance by the haversine formula in its closed form, with the mean
  Earth radius of 6371 km.
\<close>

definition hav :: "real \<Rightarrow> real \<Rightarrow> real \<Rightarrow> real \<Rightarrow> real" where
  "hav lat1 lon1 lat2 lon2 =
     (sin (radians (lat2 - lat1) / 2))\<^sup>2
       + cos (radians lat1) * cos (radians lat2) * (sin (radians (lon2 - lon1) / 2))\<^sup>2"

definition great_circle_km :: "real \<Rightarrow> real \<Rightarrow> real \<Rightarrow> real \<Rightarrow> real" where
  "great_circle_km lat1 lon1 lat2 lon2 = 2 * 6371 * arcsin (sqrt (hav lat1 lon1 lat2 lon2))"

section \<open>Test data\<close>

text \<open>A lookup service that is down: every query raises.\<close>

definition geocoder_down :: geocoder where
  "geocoder_down query = Inl ''GeocoderUnavailable''"

text \<open>An environment, an exchange file at \<open>alerts.json\<close>, and an empty store.\<close>

definition test_env :: env where
  "test_env =
     \<lparr>getcwd = ''/srv/app'', utcnow = (\<lambda>idx. 1700000000 + idx),
      float_of_str = (\<lambda>s. if s = ''12.5'' then Some 12.5 else None),
      repr = (\<lambda>v. ''<value>''),
      statement_error = (\<lambda>v. ''could not convert to float'')\<rparr>"

definition exchange :: "pyval \<Rightarrow> string \<Rightarrow> exchange_file" where
  "exchange v path = (if path = ''alerts.json'' then Parsed v else Missing)"

definition no_files :: "string \<Rightarrow> exchange_file" where
  "no_files path = Missing"

definition empty_state :: app_state where
  "empty_state = \<lparr>alert_table = [], last_error = None\<rparr>"

definition record_cyclone :: pyval where
  "record_cyclone =
     PDict [(''title'', PStr ''Cyclone''), (''message'', PStr ''Stay in''),
            (''severity'', PStr ''emergency''), (''source'', PStr ''INCOIS''),
            (''lat'', PFloat 13), (''lng'', PInt 80)]"

definition record_note :: pyval where
  "record_note = PDict [(''title'', PStr ''Note''), (''message'', PStr ''No place'')]"

definition two_records :: pyval where
  "two_records = PList [record_cyclone, record_note]"

text \<open>Scraped alerts, sources that return them, and a clock.\<close>

definition alert_with_message :: "string \<Rightarrow> scraped_alert" where
  "alert_with_message m =
     \<lparr>sa_title = ''Bulletin'', sa_message = m, sa_severity = ''info'', sa_source = ''INCOIS'',
      sa_lat = None, sa_lng = None, sa_time = ''2024-01-01T00:00:00+00:00''\<rparr>"

definition no_alerts :: "string \<Rightarrow> scraped_alert list" where
  "no_alerts url = []"

definition one_bulletin :: "string \<Rightarrow> scraped_alert list" where
  "one_bulletin url = [alert_with_message ''High waves along the coast'']"

definition fixed_clock :: "nat \<Rightarrow> string" where
  "fixed_clock i = ''2024-01-01T00:00:00+00:00''"

text \<open>
  Records and batches for the synchronisation: \<open>record_swell\<close> has a \<open>lat\<close> that is no
  number beside a \<open>lng\<close>, \<open>record_lone_lat\<close> a \<open>lat\<close> that is no number and no \<open>lng\<close>.
\<close>

definition record_swell :: pyval where
  "record_swell =
     PDict [(''title'', PStr ''Swell''), (''message'', PStr ''High waves''),
            (''lat'', PStr ''north''), (''lng'', PFloat 80)]"

definition record_lone_lat :: pyval where
  "record_lone_lat =
     PDict [(''title'', PStr ''Surge''), (''message'', PStr ''Storm surge''),
            (''lat'', PList [PInt 1, PInt 2])]"



definition stale_state :: app_state where
  "stale_state =
     \<lparr>alert_table =
        [\<lparr>alert_id = Some 1, source = ''INCOIS'', severity = ''warning'', title = ''Old'',
          message = ''Old message'', time = 1600000000, lat = PNone, lng = PNone\<rparr>],
      last_error = None\<rparr>"

section \<open>Verification\<close>

subsection \<open>Substrings and case\<close>

lemma py_in_sublist: "py_in needle hay \<longleftrightarrow> sublist needle hay"
  by (induction hay) (auto simp: sublist_Cons_right)

lemma lower_append: "lower (a @ b) = lower a @ lower b"
  by (simp add: lower_def)

lemma map_eq_append3:
  assumes "map f xs = ps @ m @ ss"
  shows "\<exists>b r a. xs = b @ r @ a \<and> map f r = m"
proof -
  from assms obtain b vs where bv: "xs = b @ vs" "map f vs = m @ ss"
    by (metis map_eq_append_conv)
  from bv(2) obtain r a where "vs = r @ a" "map f r = m"
    by (metis map_eq_append_conv)
  with bv(1) show ?thesis by blast
qed

lemma occurs_ci_py_in: "occurs_ci keyword text \<longleftrightarrow> py_in (lower keyword) (lower text)"
proof
  assume "occurs_ci keyword text"
  then obtain b r a where "text = b @ r @ a" "lower r = lower keyword"
    unfolding occurs_ci_def by blast
  then have "lower text = lower b @ lower keyword @ lower a"
    by (simp add: lower_append)
  then show "py_in (lower keyword) (lower text)"
    unfolding py_in_sublist sublist_def by blast
next
  assume "py_in (lower keyword) (lower text)"
  then obtain ps ss where "map lower_char text = ps @ lower keyword @ ss"
    unfolding py_in_sublist sublist_def lower_def by blast
  from map_eq_append3 [OF this] show "occurs_ci keyword text"
    unfolding occurs_ci_def lower_def by blast
qed

subsection \<open>Severity classification\<close>

lemma keyword_loop_iff:
  "keyword_loop kws t \<longleftrightarrow> (\<exists>k\<in>set kws. py_in (lower k) t)"
  by (induction kws) auto

lemma keyword_loop_occurs:
  "keyword_loop kws (lower text) \<longleftrightarrow> (\<exists>k\<in>set kws. occurs_ci k text)"
  by (simp add: keyword_loop_iff occurs_ci_py_in)

text \<open>
  Claim C2. For every text: if some keyword of the emergency set occurs in it as a
  case-insensitive substring, the severity is \<open>emergency\<close>, whether or not a warning
  keyword occurs too; if no emergency keyword occurs and some warning keyword does, it is
  \<open>warning\<close>; if none of either set occurs, it is \<open>info\<close>. The classification is a
  function of the text alone.
\<close>

theorem determine_severity_precedence:
  "((\<exists>k\<in>set emergency_keywords. occurs_ci k text) \<longrightarrow> determine_severity text = ''emergency'') \<and>
   (\<not> (\<exists>k\<in>set emergency_keywords. occurs_ci k text) \<and> (\<exists>k\<in>set warning_keywords. occurs_ci k text)
      \<longrightarrow> determine_severity text = ''warning'') \<and>
   (\<not> (\<exists>k\<in>set emergency_keywords. occurs_ci k text) \<and> \<not> (\<exists>k\<in>set warning_keywords. occurs_ci k text)
      \<longrightarrow> determine_severity text = ''info'')"
  unfolding keyword_loop_occurs [symmetric] determine_severity_def by simp

theorem determine_severity_precedence_witness:
  "(\<exists>k\<in>set emergency_keywords. occurs_ci k ''Tsunami WARNING issued'') \<and>
   (\<exists>k\<in>set warning_keywords. occurs_ci k ''Tsunami WARNING issued'') \<and>
   determine_severity ''Tsunami WARNING issued'' = ''emergency'' \<and>
   \<not> (\<exists>k\<in>set emergency_keywords. occurs_ci k ''High Tide today'') \<and>
   (\<exists>k\<in>set warning_keywords. occurs_ci k ''High Tide today'') \<and>
   determine_severity ''High Tide today'' = ''warning'' \<and>
   \<not> (\<exists>k\<in>set emergency_keywords. occurs_ci k ''Calm sea'') \<and>
   \<not> (\<exists>k\<in>set warning_keywords. occurs_ci k ''Calm sea'') \<and>
   determine_severity ''Calm sea'' = ''info''"
proof -
  have e1: "\<exists>k\<in>set emergency_keywords. occurs_ci k ''Tsunami WARNING issued''"
    unfolding keyword_loop_occurs [symmetric] by code_simp
  have w1: "\<exists>k\<in>set warning_keywords. occurs_ci k ''Tsunami WARNING issued''"
    unfolding keyword_loop_occurs [symmetric] by code_simp
  have e2: "\<not> (\<exists>k\<in>set emergency_keywords. occurs_ci k ''High Tide today'')"
    unfolding keyword_loop_occurs [symmetric] by code_simp
  have w2: "\<exists>k\<in>set warning_keywords. occurs_ci k ''High Tide today''"
    unfolding keyword_loop_occurs [symmetric] by code_simp
  have e3: "\<not> (\<exists>k\<in>set emergency_keywords. occurs_ci k ''Calm sea'')"
    unfolding keyword_loop_occurs [symmetric] by code_simp
  have w3: "\<not> (\<exists>k\<in>set warning_keywords. occurs_ci k ''Calm sea'')"
    unfolding keyword_loop_occurs [symmetric] by code_simp
  from determine_severity_precedence [of "''Tsunami WARNING issued''"] e1
  have r1: "determine_severity ''Tsunami WARNING issued'' = ''emergency''" by blast
  from determine_severity_precedence [of "''High Tide today''"] e2 w2
  have r2: "determine_severity ''High Tide today'' = ''warning''" by blast
  from determine_severity_precedence [of "''Calm sea''"] e3 w3
  have r3: "determine_severity ''Calm sea'' = ''info''" by blast
  from e1 w1 r1 e2 w2 r2 e3 w3 r3 show ?thesis by blast
qed

subsection \<open>Geocoding overrides\<close>

lemma lower_override_names:
  "lower ''bay of bengal'' = ''bay of bengal''"
  "lower ''arabian sea'' = ''arabian sea''"
  "lower ''indian ocean'' = ''indian ocean''"
  by code_simp+

lemma occurs_override:
  "occurs_ci ''bay of bengal'' location \<longleftrightarrow> py_in ''bay of bengal'' (lower location)"
  "occurs_ci ''arabian sea'' location \<longleftrightarrow> py_in ''arabian sea'' (lower location)"
  "occurs_ci ''indian ocean'' location \<longleftrightarrow> py_in ''indian ocean'' (lower location)"
  by (simp_all only: occurs_ci_py_in lower_override_names)

text \<open>
  Claim C4, as amended. A location that contains \<open>bay of bengal\<close> (in any case) is
  geocoded to (15.0, 87.0); one that contains \<open>arabian sea\<close> and not \<open>bay of bengal\<close> to
  (15.0, 68.0); one that contains \<open>indian ocean\<close> and neither of the two others to
  (10.0, 75.0); in all three cases no query is issued to the external lookup.
\<close>

theorem geocode_overrides_in_order:
  "(occurs_ci ''bay of bengal'' location \<longrightarrow>
      geocode_location geocode location = (Some (15.0, 87.0), [])) \<and>
   (\<not> occurs_ci ''bay of bengal'' location \<and> occurs_ci ''arabian sea'' location \<longrightarrow>
      geocode_location geocode location = (Some (15.0, 68.0), [])) \<and>
   (\<not> occurs_ci ''bay of bengal'' location \<and> \<not> occurs_ci ''arabian sea'' location \<and>
    occurs_ci ''indian ocean'' location \<longrightarrow>
      geocode_location geocode location = (Some (10.0, 75.0), []))"
  unfolding occurs_override geocode_location_def by (simp add: Let_def)

theorem geocode_overrides_in_order_witness:
  "occurs_ci ''bay of bengal'' ''Bay of Bengal'' \<and>
   geocode_location geocoder_down ''Bay of Bengal'' = (Some (15.0, 87.0), []) \<and>
   \<not> occurs_ci ''bay of bengal'' ''off the Arabian Sea'' \<and>
   occurs_ci ''arabian sea'' ''off the Arabian Sea'' \<and>
   geocode_location geocoder_down ''off the Arabian Sea'' = (Some (15.0, 68.0), []) \<and>
   \<not> occurs_ci ''bay of bengal'' ''INDIAN OCEAN region'' \<and>
   \<not> occurs_ci ''arabian sea'' ''INDIAN OCEAN region'' \<and>
   occurs_ci ''indian ocean'' ''INDIAN OCEAN region'' \<and>
   geocode_location geocoder_down ''INDIAN OCEAN region'' = (Some (10.0, 75.0), [])"
proof -
  have b1: "occurs_ci ''bay of bengal'' ''Bay of Bengal''"
    unfolding occurs_override by code_simp
  have b2: "\<not> occurs_ci ''bay of bengal'' ''off the Arabian Sea''"
    unfolding occurs_override by code_simp
  have a2: "occurs_ci ''arabian sea'' ''off the Arabian Sea''"
    unfolding occurs_override by code_simp
  have b3: "\<not> occurs_ci ''bay of bengal'' ''INDIAN OCEAN region''"
    unfolding occurs_override by code_simp
  have a3: "\<not> occurs_ci ''arabian sea'' ''INDIAN OCEAN region''"
    unfolding occurs_override by code_simp
  have i3: "occurs_ci ''indian ocean'' ''INDIAN OCEAN region''"
    unfolding occurs_override by code_simp
  from geocode_overrides_in_order [of "''Bay of Bengal''" geocoder_down] b1
  have r1: "geocode_location geocoder_down ''Bay of Bengal'' = (Some (15.0, 87.0), [])"
    by blast
  from geocode_overrides_in_order [of "''off the Arabian Sea''" geocoder_down] b2 a2
  have r2: "geocode_location geocoder_down ''off the Arabian Sea'' = (Some (15.0, 68.0), [])"
    by blast
  from geocode_overrides_in_order [of "''INDIAN OCEAN region''" geocoder_down] b3 a3 i3
  have r3: "geocode_location geocoder_down ''INDIAN OCEAN region'' = (Some (10.0, 75.0), [])"
    by blast
  from b1 r1 b2 a2 r2 b3 a3 i3 r3 show ?thesis by blast
qed

text \<open>
  The overrides are tried in order: a location that names both the Bay of Bengal and the
  Arabian Sea contains \<open>arabian sea\<close> and is geocoded to (15.0, 87.0), not (15.0, 68.0).
\<close>

theorem arabian_sea_after_bay_of_bengal_counterexample:
  "occurs_ci ''arabian sea'' ''Bay of Bengal and Arabian Sea'' \<and>
   geocode_location geocoder_down ''Bay of Bengal and Arabian Sea'' = (Some (15.0, 87.0), []) \<and>
   geocode_location geocoder_down ''Bay of Bengal and Arabian Sea'' \<noteq> (Some (15.0, 68.0), [])"
proof -
  have a: "occurs_ci ''arabian sea'' ''Bay of Bengal and Arabian Sea''"
    unfolding occurs_override by code_simp
  have b: "py_in ''bay of bengal'' (lower ''Bay of Bengal and Arabian Sea'')"
    by code_simp
  have r: "geocode_location geocoder_down ''Bay of Bengal and Arabian Sea'' = (Some (15.0, 87.0), [])"
    using b by (simp add: geocode_location_def Let_def)
  from a r show ?thesis by simp
qed

subsection \<open>The haversine distance\<close>

lemma sin_half_squared: "(sin (x / 2))\<^sup>2 = (1 - cos x) / (2::real)"
proof -
  have "cos x = cos (2 * (x / 2))" by simp
  also have "\<dots> = 1 - 2 * (sin (x / 2))\<^sup>2" by (rule cos_double_sin)
  finally show ?thesis by simp
qed

lemma abs_le_times_bounds:
  fixes u t :: real
  assumes "\<bar>u\<bar> \<le> 1" "0 \<le> t"
  shows "u * t \<le> t \<and> - t \<le> u * t"
proof -
  from assms have "u \<le> 1" "- 1 \<le> u" by linarith+
  with assms(2) have "u * t \<le> 1 * t" "(- 1) * t \<le> u * t"
    by (simp_all only: mult_right_mono)
  then show ?thesis by simp
qed

lemma haversine_a_range:
  fixes p1 p2 l :: real
  defines "a \<equiv> (sin ((p2 - p1) / 2))\<^sup>2 + cos p1 * cos p2 * (sin (l / 2))\<^sup>2"
  shows "0 \<le> a \<and> a \<le> 1"
proof -
  define u where "u = cos (p2 - p1)"
  define v where "v = cos (p2 + p1)"
  define s where "s = (sin (l / 2))\<^sup>2"
  have s0: "0 \<le> s" by (simp add: s_def)
  have s1: "s \<le> 1" unfolding s_def by (simp add: abs_square_le_1)
  have u1: "\<bar>u\<bar> \<le> 1" unfolding u_def by simp
  have v1: "\<bar>v\<bar> \<le> 1" unfolding v_def by simp
  have h1: "(sin ((p2 - p1) / 2))\<^sup>2 = (1 - u) / 2"
    unfolding u_def by (rule sin_half_squared)
  have h2: "cos p1 * cos p2 = (u + v) / 2"
    unfolding u_def v_def by (simp add: cos_add cos_diff)
  define p where "p = u * (1 - s)"
  define q where "q = v * s"
  have a_eq: "a = (1 - p + q) / 2"
    unfolding a_def h1 h2 s_def [symmetric] p_def q_def by (simp add: field_simps)
  have "p \<le> 1 - s" "- (1 - s) \<le> p"
    unfolding p_def using abs_le_times_bounds [of u "1 - s"] u1 s1 by simp_all
  moreover have "q \<le> s" "- s \<le> q"
    unfolding q_def using abs_le_times_bounds [of v s] v1 s0 by simp_all
  ultimately show ?thesis unfolding a_eq by simp
qed


lemma hav_range: "0 \<le> hav lat1 lon1 lat2 lon2 \<and> hav lat1 lon1 lat2 lon2 \<le> 1"
proof -
  have "radians (lat2 - lat1) = radians lat2 - radians lat1"
    by (simp add: radians_def algebra_simps diff_divide_distrib)
  then show ?thesis
    unfolding hav_def using haversine_a_range [of "radians lat2" "radians lat1" "radians (lon2 - lon1)"]
    by simp
qed

lemma hav_sym: "hav lat1 lon1 lat2 lon2 = hav lat2 lon2 lat1 lon1"
proof -
  have a: "radians (lat2 - lat1) / 2 = - (radians (lat1 - lat2) / 2)"
    by (simp add: radians_def field_simps)
  have b: "radians (lon2 - lon1) / 2 = - (radians (lon1 - lon2) / 2)"
    by (simp add: radians_def field_simps)
  show ?thesis unfolding hav_def a b by (simp only: sin_minus power2_minus mult.commute)
qed

lemma hav_self: "hav lat0 lon0 lat0 lon0 = 0"
  by (simp add: hav_def radians_def)

lemma atan2_sqrt_arcsin:
  assumes "0 \<le> a" "a \<le> 1"
  shows "atan2 (sqrt a) (sqrt (1 - a)) = arcsin (sqrt a)"
proof (cases "a = 1")
  case True
  then show ?thesis by (simp add: atan2_def)
next
  case False
  with assms have lt: "a < 1" by simp
  then have pos: "sqrt (1 - a) > 0" by simp
  have "sqrt a < 1" using lt assms(1) by simp
  moreover have "- 1 < sqrt a" using assms(1) by (smt (verit) real_sqrt_ge_zero)
  ultimately have "arcsin (sqrt a) = arctan (sqrt a / sqrt (1 - (sqrt a)\<^sup>2))"
    by (rule arcsin_arctan [rotated])
  also have "(sqrt a)\<^sup>2 = a" using assms(1) by simp
  finally show ?thesis using pos by (simp add: atan2_def)
qed

lemma haversine_km_great_circle:
  "haversine_km lat1 lon1 lat2 lon2 = Inr (great_circle_km lat1 lon1 lat2 lon2)"
proof -
  let ?a = "hav lat1 lon1 lat2 lon2"
  from hav_range [of lat1 lon1 lat2 lon2] have r: "0 \<le> ?a" "?a \<le> 1" by simp_all
  then have "\<not> (?a < 0 \<or> 1 - ?a < 0)" by simp
  moreover have "atan2 (sqrt ?a) (sqrt (1 - ?a)) = arcsin (sqrt ?a)"
    using r by (rule atan2_sqrt_arcsin)
  ultimately show ?thesis
    unfolding haversine_km_def great_circle_km_def Let_def hav_def [symmetric] by simp
qed

text \<open>
  Claim C9. The haversine distance is symmetric, \<open>haversine_km(p, q) = haversine_km(q, p)\<close>
  for all coordinate pairs, and the distance from a point to itself is 0.
\<close>

theorem haversine_km_symmetric_zero:
  "haversine_km lat1 lon1 lat2 lon2 = haversine_km lat2 lon2 lat1 lon1 \<and>
   haversine_km lat1 lon1 lat1 lon1 = Inr 0"
  unfolding haversine_km_great_circle great_circle_km_def
  by (simp add: hav_sym [of lat1 lon1 lat2 lon2] hav_self)

theorem haversine_km_symmetric_zero_witness:
  "haversine_km 13 80 13.0827 80.2707 = haversine_km 13.0827 80.2707 13 80 \<and>
   haversine_km 13 80 13 80 = Inr 0"
  using haversine_km_symmetric_zero [of 13 80 "13.0827" "80.2707"] by simp


subsection \<open>The proximity query\<close>

lemma haversine_km_self: "haversine_km lat0 lng0 lat0 lng0 = Inr 0"
  by (simp add: haversine_km_great_circle great_circle_km_def hav_self)

lemma nearby_loop_mono:
  assumes "r1 \<le> r2"
  shows "set acc1 \<subseteq> set acc2 \<Longrightarrow>
         set (nearby_loop lat0 lng0 r1 rows acc1) \<subseteq> set (nearby_loop lat0 lng0 r2 rows acc2)"
proof (induction rows arbitrary: acc1 acc2)
  case Nil
  then show ?case by simp
next
  case (Cons a rows)
  show ?case
  proof (cases "lat a = PNone \<or> lng a = PNone")
    case True
    then show ?thesis using Cons.IH [OF Cons.prems] by simp
  next
    case False
    show ?thesis
    proof (cases "row_distance lat0 lng0 a")
      case (Inl exn)
      then show ?thesis using False Cons.IH [OF Cons.prems] by simp
    next
      case (Inr d)
      let ?row = "(a, py_round d 2)"
      have grow: "set (acc1 @ [?row]) \<subseteq> set (acc2 @ [?row])" using Cons.prems by auto
      have keep: "set acc1 \<subseteq> set (acc2 @ [?row])" using Cons.prems by auto
      consider "d \<le> r1" | "\<not> d \<le> r1" "d \<le> r2" | "\<not> d \<le> r2" by blast
      then show ?thesis
      proof cases
        case 1
        with assms have "d \<le> r2" by simp
        with 1 show ?thesis using False Inr Cons.IH [OF grow] by simp
      next
        case 2
        then show ?thesis using False Inr Cons.IH [OF keep] by simp
      next
        case 3
        with assms have "\<not> d \<le> r1" by simp
        with 3 show ?thesis using False Inr Cons.IH [OF Cons.prems] by simp
      qed
    qed
  qed
qed

lemma load_two_records:
  "load_alerts_from_json test_env (exchange two_records) ''alerts.json'' empty_state =
     (Summary 2 0 [],
      \<lparr>alert_table =
         [\<lparr>alert_id = Some 1, source = ''INCOIS'', severity = ''emergency'', title = ''Cyclone'',
           message = ''Stay in'', time = 1700000000, lat = PFloat 13, lng = PFloat 80\<rparr>,
          \<lparr>alert_id = Some 2, source = ''unknown'', severity = ''info'', title = ''Note'',
           message = ''No place'', time = 1700000001, lat = PNone, lng = PNone\<rparr>],
       last_error = None\<rparr>)"
  by (simp add: load_alerts_from_json_def exchange_def two_records_def record_cyclone_def
      record_note_def empty_state_def fresh_acc_def load_item_def Let_def dict_get_def
      skip_record_def add_record_def commit_rows_def bind_float_def float_limit_def
      test_env_def)

text \<open>
  Claim C8. For a fixed query point and store, and radii \<open>r1 \<le> r2\<close>, every row of the
  answer for \<open>r1\<close> is a row of the answer for \<open>r2\<close>.
\<close>

theorem alerts_nearby_monotone:
  assumes "r1 \<le> r2"
  shows "set (fst (alerts_nearby e files lat0 lng0 r1 st))
           \<subseteq> set (fst (alerts_nearby e files lat0 lng0 r2 st))"
proof -
  obtain res st' where l: "load_alerts_from_json e files ''alerts.json'' st = (res, st')"
    by (cases "load_alerts_from_json e files ''alerts.json'' st")
  have "set (nearby_loop lat0 lng0 r1 (alert_table st') [])
      \<subseteq> set (nearby_loop lat0 lng0 r2 (alert_table st') [])"
    using assms by (rule nearby_loop_mono) simp
  then show ?thesis by (simp add: alerts_nearby_def l)
qed

theorem alerts_nearby_monotone_witness:
  "(100::real) \<le> 200 \<and>
   set (fst (alerts_nearby test_env (exchange two_records) 13 80 100 empty_state))
     \<subseteq> set (fst (alerts_nearby test_env (exchange two_records) 13 80 200 empty_state)) \<and>
   fst (alerts_nearby test_env (exchange two_records) 13 80 100 empty_state) \<noteq> []"
proof -
  have h: "(100::real) \<le> 200" by simp
  have n: "fst (alerts_nearby test_env (exchange two_records) 13 80 100 empty_state) \<noteq> []"
    by (simp add: alerts_nearby_def load_two_records row_distance_def haversine_km_self)
  from alerts_nearby_monotone [OF h, of test_env "exchange two_records" 13 80 empty_state] h n
  show ?thesis by blast
qed

subsection \<open>Deduplication\<close>

lemma upt_0_Suc: "[0..<Suc n] = 0 # map Suc [0..<n]"
  by (simp only: map_Suc_upt upt_conv_Cons [of 0 "Suc n"] zero_less_Suc)

lemma map_nth_filter_Cons:
  "map (nth (x # xs)) (filter P [0..<Suc (length xs)]) =
     (if P 0 then [x] else []) @ map (nth xs) (filter (\<lambda>i. P (Suc i)) [0..<length xs])"
  unfolding upt_0_Suc by (simp add: filter_map comp_def)

lemma ball_upt_Suc_Cons:
  "(\<forall>j\<in>{0..<Suc i}. key ((x # xs) ! j) \<noteq> k) \<longleftrightarrow>
     key x \<noteq> k \<and> (\<forall>j\<in>{0..<i}. key (xs ! j) \<noteq> k)"
proof
  assume a: "\<forall>j\<in>{0..<Suc i}. key ((x # xs) ! j) \<noteq> k"
  have "key ((x # xs) ! 0) \<noteq> k" using a [rule_format, of 0] by simp
  moreover have "key (xs ! j) \<noteq> k" if "j \<in> {0..<i}" for j
    using a [rule_format, of "Suc j"] that by simp
  ultimately show "key x \<noteq> k \<and> (\<forall>j\<in>{0..<i}. key (xs ! j) \<noteq> k)" by simp
next
  assume a: "key x \<noteq> k \<and> (\<forall>j\<in>{0..<i}. key (xs ! j) \<noteq> k)"
  show "\<forall>j\<in>{0..<Suc i}. key ((x # xs) ! j) \<noteq> k"
  proof
    fix j assume "j \<in> {0..<Suc i}"
    then show "key ((x # xs) ! j) \<noteq> k" using a by (cases j) auto
  qed
qed

lemma first_occurrences_positions:
  "first_occurrences key seen xs =
     map (nth xs) (filter (\<lambda>i. key (xs ! i) \<notin> seen \<and> (\<forall>j\<in>{0..<i}. key (xs ! j) \<noteq> key (xs ! i)))
       [0..<length xs])"
proof (induction xs arbitrary: seen)
  case Nil
  show ?case by simp
next
  case (Cons x xs)
  let ?P = "\<lambda>i. key ((x # xs) ! i) \<notin> seen \<and>
              (\<forall>j\<in>{0..<i}. key ((x # xs) ! j) \<noteq> key ((x # xs) ! i))"
  have P0: "?P 0 \<longleftrightarrow> key x \<notin> seen" by simp
  have PS: "?P (Suc i) \<longleftrightarrow>
      key (xs ! i) \<notin> seen \<and> key x \<noteq> key (xs ! i) \<and> (\<forall>j\<in>{0..<i}. key (xs ! j) \<noteq> key (xs ! i))" for i
    using ball_upt_Suc_Cons [of i key x xs "key (xs ! i)"] by simp
  have rhs: "map (nth (x # xs)) (filter ?P [0..<length (x # xs)]) =
      (if key x \<notin> seen then [x] else []) @
      map (nth xs) (filter (\<lambda>i. key (xs ! i) \<notin> seen \<and> key x \<noteq> key (xs ! i) \<and>
                      (\<forall>j\<in>{0..<i}. key (xs ! j) \<noteq> key (xs ! i))) [0..<length xs])"
    using map_nth_filter_Cons [of x xs ?P] unfolding P0 PS by simp
  show ?case
  proof (cases "key x \<in> seen")
    case True
    then have eq: "(key (xs ! i) \<notin> seen \<and> key x \<noteq> key (xs ! i) \<and> Q) \<longleftrightarrow> (key (xs ! i) \<notin> seen \<and> Q)" for i Q
      by auto
    show ?thesis unfolding rhs using True by (simp add: Cons.IH eq)
  next
    case False
    have eq: "(key (xs ! i) \<notin> seen \<and> key x \<noteq> key (xs ! i) \<and> Q) \<longleftrightarrow>
        (key (xs ! i) \<notin> insert (key x) seen \<and> Q)" for i Q
      by auto
    show ?thesis unfolding rhs using False by (simp add: Cons.IH eq)
  qed
qed

lemma dedup_loop_first_occurrences:
  "dedup_loop xs (u, seen, self) =
     (u @ first_occurrences message_key seen xs,
      seen \<union> message_key ` set xs,
      self\<lparr>alerts_processed := alerts_processed self + length (first_occurrences message_key seen xs),
           alerts_skipped := alerts_skipped self
             + (length xs - length (first_occurrences message_key seen xs))\<rparr>)"
proof (induction xs arbitrary: u seen self)
  case Nil
  show ?case by simp
next
  case (Cons x xs)
  have le: "length (first_occurrences message_key s xs) \<le> length xs" for s
    by (induction xs arbitrary: s) (auto simp: le_SucI)
  show ?case
    using le [of "insert (message_key x) seen"] le [of seen]
    by (auto simp: Cons.IH Suc_diff_le)
qed

lemma sample_keys_distinct: "distinct (map message_key (generate_sample_alerts now))"
  unfolding generate_sample_alerts_def message_key_def
  apply (simp only: list.map scraped_alert.simps distinct.simps)
  by code_simp


lemma first_occurrences_kept_positions:
  "first_occurrences message_key {} alerts = map (nth alerts) (kept_positions alerts)"
  by (simp add: first_occurrences_positions kept_positions_def)

text \<open>
  Claim C5, as amended. For every sequence of candidate alerts, deduplication keeps exactly
  the alerts whose key, the lowercase of the first 100 characters of \<open>message\<close>, has not
  occurred earlier in the sequence, in their order; it adds the number of kept alerts to
  \<open>alerts_processed\<close> and the number of dropped ones to \<open>alerts_skipped\<close>. Of two alerts
  whose keys differ both are kept; of two alerts with the same key the second is dropped.
\<close>

theorem dedup_keeps_first_occurrences:
  "dedup_loop alerts ([], {}, self) =
     (map (nth alerts) (kept_positions alerts), message_key ` set alerts,
      self\<lparr>alerts_processed := alerts_processed self + length (kept_positions alerts),
           alerts_skipped := alerts_skipped self
             + (length alerts - length (kept_positions alerts))\<rparr>) \<and>
   (message_key a \<noteq> message_key b \<longrightarrow> fst (dedup_loop [a, b] ([], {}, self)) = [a, b]) \<and>
   (message_key a = message_key b \<longrightarrow> fst (dedup_loop [a, b] ([], {}, self)) = [a])"
proof -
  have run: "dedup_loop xs ([], {}, self) =
      (first_occurrences message_key {} xs, message_key ` set xs,
       self\<lparr>alerts_processed := alerts_processed self
                + length (first_occurrences message_key {} xs),
            alerts_skipped := alerts_skipped self
                + (length xs - length (first_occurrences message_key {} xs))\<rparr>)" for xs
    by (simp add: dedup_loop_first_occurrences)
  have whole: "dedup_loop alerts ([], {}, self) =
     (map (nth alerts) (kept_positions alerts), message_key ` set alerts,
      self\<lparr>alerts_processed := alerts_processed self + length (kept_positions alerts),
           alerts_skipped := alerts_skipped self
             + (length alerts - length (kept_positions alerts))\<rparr>)"
    unfolding run first_occurrences_kept_positions by simp
  have differ: "fst (dedup_loop [a, b] ([], {}, self)) = [a, b]"
    if "message_key a \<noteq> message_key b"
    using that unfolding run by simp
  have same: "fst (dedup_loop [a, b] ([], {}, self)) = [a]"
    if "message_key a = message_key b"
    using that unfolding run by simp
  from whole differ same show ?thesis by blast
qed

lemma kept_positions_example:
  "kept_positions [alert_with_message ''Tsunami alert'', alert_with_message ''High waves'',
                   alert_with_message ''TSUNAMI ALERT''] = [0, 1]"
  by code_simp

lemma message_key_example:
  "message_key (alert_with_message ''Tsunami alert'') \<noteq> message_key (alert_with_message ''High waves'')"
  by code_simp

theorem dedup_keeps_first_occurrences_witness:
  "fst (dedup_loop [alert_with_message ''Tsunami alert'', alert_with_message ''High waves'',
                    alert_with_message ''TSUNAMI ALERT''] ([], {}, init_scraper)) =
     [alert_with_message ''Tsunami alert'', alert_with_message ''High waves''] \<and>
   snd (snd (dedup_loop [alert_with_message ''Tsunami alert'', alert_with_message ''High waves'',
                    alert_with_message ''TSUNAMI ALERT''] ([], {}, init_scraper))) =
     \<lparr>alerts_processed = 2, alerts_skipped = 1\<rparr> \<and>
   message_key (alert_with_message ''Tsunami alert'') \<noteq> message_key (alert_with_message ''High waves'') \<and>
   fst (dedup_loop [alert_with_message ''Tsunami alert'', alert_with_message ''High waves'']
          ([], {}, init_scraper)) =
     [alert_with_message ''Tsunami alert'', alert_with_message ''High waves'']"
  using dedup_keeps_first_occurrences
          [of "[alert_with_message ''Tsunami alert'', alert_with_message ''High waves'',
                alert_with_message ''TSUNAMI ALERT'']" init_scraper
              "alert_with_message ''Tsunami alert''" "alert_with_message ''High waves''"]
        message_key_example
  unfolding kept_positions_example
  by (simp add: init_scraper_def)

text \<open>
  Two messages that differ within their first 100 characters, but in case only, have the
  same key: the second alert is dropped and counted as skipped.
\<close>

theorem dedup_case_only_difference_counterexample:
  "take 100 (sa_message (alert_with_message ''Tsunami alert'')) \<noteq>
     take 100 (sa_message (alert_with_message ''TSUNAMI ALERT'')) \<and>
   fst (dedup_loop [alert_with_message ''Tsunami alert'', alert_with_message ''TSUNAMI ALERT'']
          ([], {}, init_scraper)) = [alert_with_message ''Tsunami alert''] \<and>
   snd (snd (dedup_loop [alert_with_message ''Tsunami alert'', alert_with_message ''TSUNAMI ALERT'']
          ([], {}, init_scraper))) = \<lparr>alerts_processed = 1, alerts_skipped = 1\<rparr>"
proof -
  have k: "message_key (alert_with_message ''Tsunami alert'') =
      message_key (alert_with_message ''TSUNAMI ALERT'')"
    by code_simp
  have d: "take 100 (sa_message (alert_with_message ''Tsunami alert'')) \<noteq>
     take 100 (sa_message (alert_with_message ''TSUNAMI ALERT''))"
    by (simp add: alert_with_message_def)
  show ?thesis using d by (simp add: k init_scraper_def)
qed

subsection \<open>The fallback of the ingestion run\<close>

lemma rss_loop_empty: "(\<forall>u\<in>set urls. f u = []) \<Longrightarrow> rss_loop f urls acc = acc"
  by (induction urls arbitrary: acc) simp_all

lemma web_loop_empty: "(\<forall>u\<in>set urls. f u = []) \<Longrightarrow> web_loop f urls [] = []"
  by (induction urls) simp_all

lemma first_occurrences_nonempty: "xs \<noteq> [] \<Longrightarrow> first_occurrences key {} xs \<noteq> []"
  by (cases xs) simp_all

lemma first_occurrences_distinct:
  "distinct (map key xs) \<Longrightarrow> key ` set xs \<inter> seen = {} \<Longrightarrow> first_occurrences key seen xs = xs"
  by (induction xs arbitrary: seen) auto

lemma dedup_samples:
  "fst (dedup_loop (generate_sample_alerts now) ([], {}, self)) = generate_sample_alerts now"
  by (simp add: dedup_loop_first_occurrences first_occurrences_distinct sample_keys_distinct)

lemma samples_nonempty: "generate_sample_alerts now \<noteq> []"
  by (simp add: generate_sample_alerts_def)

text \<open>
  Claim C6. \<open>fetch_incois_alerts\<close> never returns an empty list, and when every feed and
  every page yields no alert it returns the fixed sample alerts. (A non-empty list of
  candidates never deduplicates to an empty one, so the second substitution of the
  samples is never taken.)
\<close>

theorem fetch_incois_alerts_nonempty:
  "fst (fetch_incois_alerts try_rss_feed scrape_webpage now self) \<noteq> [] \<and>
   ((\<forall>url\<in>set potential_feeds. try_rss_feed url = []) \<and>
    (\<forall>url\<in>set scraping_urls. scrape_webpage url = []) \<longrightarrow>
      fst (fetch_incois_alerts try_rss_feed scrape_webpage now self) = generate_sample_alerts now)"
proof -
  let ?scraped = "web_loop scrape_webpage scraping_urls (rss_loop try_rss_feed potential_feeds [])"
  let ?all = "if ?scraped = [] then generate_sample_alerts now else ?scraped"
  obtain u seen self' where d: "dedup_loop ?all ([], {}, self) = (u, seen, self')"
    by (cases "dedup_loop ?all ([], {}, self)")
  have all_ne: "?all \<noteq> []" using samples_nonempty by simp
  have u: "u = first_occurrences message_key {} ?all"
    using d unfolding dedup_loop_first_occurrences by simp
  have u_ne: "u \<noteq> []" unfolding u using all_ne by (rule first_occurrences_nonempty)
  have r: "fst (fetch_incois_alerts try_rss_feed scrape_webpage now self) = u"
    using d u_ne by (simp add: fetch_incois_alerts_def Let_def)
  have "u = generate_sample_alerts now"
    if "\<forall>url\<in>set potential_feeds. try_rss_feed url = []"
       "\<forall>url\<in>set scraping_urls. scrape_webpage url = []"
  proof -
    have "?scraped = []" using that by (simp add: rss_loop_empty web_loop_empty)
    then have "u = fst (dedup_loop (generate_sample_alerts now) ([], {}, self))"
      using d by simp
    then show ?thesis by (simp only: dedup_samples)
  qed
  with r u_ne show ?thesis by simp
qed

theorem fetch_incois_alerts_nonempty_witness:
  "fst (fetch_incois_alerts no_alerts no_alerts fixed_clock init_scraper) =
     generate_sample_alerts fixed_clock \<and>
   fst (fetch_incois_alerts no_alerts one_bulletin fixed_clock init_scraper) \<noteq> []"
  using fetch_incois_alerts_nonempty [of no_alerts no_alerts fixed_clock init_scraper]
        fetch_incois_alerts_nonempty [of no_alerts one_bulletin fixed_clock init_scraper]
  by (simp add: no_alerts_def)

subsection \<open>Synchronisation of the store\<close>

lemma merge_acc_fresh [simp]: "merge_acc acc fresh_acc = acc" "merge_acc fresh_acc acc = acc"
  by (simp_all add: merge_acc_def fresh_acc_def)

lemma merge_acc_assoc: "merge_acc (merge_acc a b) c = merge_acc a (merge_acc b c)"
  by (simp add: merge_acc_def)

lemma skip_record_merge: "skip_record r acc = merge_acc acc (skip_record r fresh_acc)"
  by (simp add: skip_record_def merge_acc_def fresh_acc_def)

lemma add_record_merge: "add_record a acc = merge_acc acc (add_record a fresh_acc)"
  by (simp add: add_record_def merge_acc_def fresh_acc_def)

lemma load_item_PDict:
  "load_item e idx (PDict d) acc =
     (if \<not> truthy (dict_get d ''title'' PNone) \<or> \<not> truthy (dict_get d ''message'' PNone)
      then skip_record (''idx '' @ show_nat idx @ '': missing title/message'') acc
      else if dict_get d ''lat'' PNone \<noteq> PNone \<and> dict_get d ''lng'' PNone \<noteq> PNone
      then (if py_float e (dict_get d ''lat'' PNone) = None \<or> py_float e (dict_get d ''lng'' PNone) = None
            then skip_record (''idx '' @ show_nat idx @ '': invalid lat/lng'') acc
            else add_record
              \<lparr>alert_id = None, source = py_str e (dict_get d ''source'' (PStr ''unknown'')),
               severity = py_str e (dict_get d ''severity'' (PStr ''info'')),
               title = py_str e (dict_get d ''title'' PNone),
               message = py_str e (dict_get d ''message'' PNone), time = utcnow e idx,
               lat = PFloat (the (py_float e (dict_get d ''lat'' PNone))),
               lng = PFloat (the (py_float e (dict_get d ''lng'' PNone)))\<rparr> acc)
      else add_record
              \<lparr>alert_id = None, source = py_str e (dict_get d ''source'' (PStr ''unknown'')),
               severity = py_str e (dict_get d ''severity'' (PStr ''info'')),
               title = py_str e (dict_get d ''title'' PNone),
               message = py_str e (dict_get d ''message'' PNone), time = utcnow e idx,
               lat = dict_get d ''lat'' PNone, lng = dict_get d ''lng'' PNone\<rparr> acc)"
  unfolding load_item_def Let_def pyval.case
  by (cases "py_float e (dict_get d ''lat'' PNone)"; cases "py_float e (dict_get d ''lng'' PNone)")
     simp_all


lemma load_item_not_dict:
  "\<forall>d. item \<noteq> PDict d \<Longrightarrow>
   load_item e idx item acc =
     skip_record
       (''idx '' @ show_nat idx @ '': exception '' @ [CHR 0x27] @ type_name item @ [CHR 0x27]
          @ '' object has no attribute '' @ [CHR 0x27] @ ''get'' @ [CHR 0x27]) acc"
  by (cases item) (simp_all add: load_item_def)

lemma if_chain_cases:
  "(\<exists>r. \<forall>acc. (if c1 then skip_record r1 acc
                  else if c2 then (if c3 then skip_record r2 acc else add_record a1 acc)
                  else add_record a2 acc) = skip_record r acc) \<or>
   (\<exists>a. \<forall>acc. (if c1 then skip_record r1 acc
                  else if c2 then (if c3 then skip_record r2 acc else add_record a1 acc)
                  else add_record a2 acc) = add_record a acc)"
  by (cases c1; cases c2; cases c3) auto

lemma load_item_cases:
  "(\<exists>r. \<forall>acc. load_item e idx item acc = skip_record r acc) \<or>
   (\<exists>a. \<forall>acc. load_item e idx item acc = add_record a acc)"
proof (cases "\<exists>d. item = PDict d")
  case True
  then obtain d where d: "item = PDict d" by blast
  show ?thesis unfolding d load_item_PDict by (rule if_chain_cases)
next
  case False
  then show ?thesis using load_item_not_dict [of item e idx] by blast
qed

lemma load_item_merge: "load_item e idx item acc = merge_acc acc (load_item e idx item fresh_acc)"
proof -
  from load_item_cases [of e idx item] show ?thesis
  proof
    assume "\<exists>r. \<forall>acc. load_item e idx item acc = skip_record r acc"
    then obtain r where "\<And>acc. load_item e idx item acc = skip_record r acc" by blast
    then show ?thesis using skip_record_merge [of r acc] by simp
  next
    assume "\<exists>a. \<forall>acc. load_item e idx item acc = add_record a acc"
    then obtain a where "\<And>acc. load_item e idx item acc = add_record a acc" by blast
    then show ?thesis using add_record_merge [of a acc] by simp
  qed
qed

lemma load_loop_merge:
  "load_loop e idx items acc = merge_acc acc (load_loop e idx items fresh_acc)"
proof (induction items arbitrary: idx acc)
  case Nil
  show ?case by simp
next
  case (Cons item items)
  have "load_loop e idx (item # items) acc =
      merge_acc (merge_acc acc (load_item e idx item fresh_acc)) (load_loop e (Suc idx) items fresh_acc)"
    using Cons.IH [of "Suc idx" "load_item e idx item acc"] load_item_merge [of e idx item acc]
    by simp
  moreover have "load_loop e idx (item # items) fresh_acc =
      merge_acc (load_item e idx item fresh_acc) (load_loop e (Suc idx) items fresh_acc)"
    using Cons.IH [of "Suc idx" "load_item e idx item fresh_acc"] by simp
  ultimately show ?case by (simp add: merge_acc_assoc)
qed



lemma load_loop_Cons_merge:
  "load_loop e idx (item # items) fresh_acc =
     merge_acc (load_item e idx item fresh_acc) (load_loop e (Suc idx) items fresh_acc)"
  using load_loop_merge [of e "Suc idx" items "load_item e idx item fresh_acc"] by simp



lemma load_parsed_list:
  "files file_path = Parsed (PList data) \<Longrightarrow>
   load_alerts_from_json e files file_path st =
     (case commit_rows e (session (load_loop e 0 data fresh_acc)) of
        Inl msg \<Rightarrow> (Failure msg, set_last_error msg (st\<lparr>alert_table := []\<rparr>))
      | Inr rows \<Rightarrow>
          (Summary (inserted (load_loop e 0 data fresh_acc))
             (skipped (load_loop e 0 data fresh_acc))
             (skipped_details (load_loop e 0 data fresh_acc)),
           st\<lparr>alert_table := rows\<rparr>))"
  by (simp add: load_alerts_from_json_def Let_def split: sum.split)

text \<open>
  Claim C10. If the exchange file does not exist, or its top-level value is not a list,
  \<open>load_alerts_from_json\<close> returns a dictionary with the key \<open>error\<close> and leaves the rows
  of the store as they were: the table is emptied only after both checks.
\<close>

theorem load_failure_leaves_store:
  assumes "files file_path = Missing \<or> (\<exists>v. files file_path = Parsed v \<and> \<not> is_list v)"
  shows "''error'' \<in> set (result_keys (fst (load_alerts_from_json e files file_path st))) \<and>
         alert_table (snd (load_alerts_from_json e files file_path st)) = alert_table st"
proof -
  from assms show ?thesis
  proof
    assume "files file_path = Missing"
    then show ?thesis by (simp add: load_alerts_from_json_def Let_def set_last_error_def)
  next
    assume "\<exists>v. files file_path = Parsed v \<and> \<not> is_list v"
    then obtain v where v: "files file_path = Parsed v" "\<not> is_list v" by blast
    then show ?thesis
      by (cases v) (simp_all add: load_alerts_from_json_def Let_def set_last_error_def)
  qed
qed

theorem load_failure_leaves_store_witness:
  "no_files ''alerts.json'' = Missing \<and>
   ''error'' \<in> set (result_keys (fst (load_alerts_from_json test_env no_files ''alerts.json'' stale_state))) \<and>
   alert_table (snd (load_alerts_from_json test_env no_files ''alerts.json'' stale_state)) =
     alert_table stale_state \<and>
   exchange (PDict []) ''alerts.json'' = Parsed (PDict []) \<and> \<not> is_list (PDict []) \<and>
   ''error'' \<in> set (result_keys (fst (load_alerts_from_json test_env (exchange (PDict [])) ''alerts.json'' stale_state))) \<and>
   alert_table (snd (load_alerts_from_json test_env (exchange (PDict [])) ''alerts.json'' stale_state)) =
     alert_table stale_state"
proof -
  have m: "no_files ''alerts.json'' = Missing" by (simp add: no_files_def)
  have p: "exchange (PDict []) ''alerts.json'' = Parsed (PDict [])" by (simp add: exchange_def)
  have n: "\<not> is_list (PDict [])" by simp
  from p n have h: "exchange (PDict []) ''alerts.json'' = Missing \<or>
      (\<exists>v. exchange (PDict []) ''alerts.json'' = Parsed v \<and> \<not> is_list v)" by blast
  from m have h': "no_files ''alerts.json'' = Missing \<or>
      (\<exists>v. no_files ''alerts.json'' = Parsed v \<and> \<not> is_list v)" by blast
  from load_failure_leaves_store [of no_files "''alerts.json''" test_env stale_state] h'
  have r1: "''error'' \<in> set (result_keys (fst (load_alerts_from_json test_env no_files ''alerts.json'' stale_state))) \<and>
   alert_table (snd (load_alerts_from_json test_env no_files ''alerts.json'' stale_state)) =
     alert_table stale_state" by blast
  from load_failure_leaves_store [of "exchange (PDict [])" "''alerts.json''" test_env stale_state] h
  have r2: "''error'' \<in> set (result_keys (fst (load_alerts_from_json test_env (exchange (PDict [])) ''alerts.json'' stale_state))) \<and>
   alert_table (snd (load_alerts_from_json test_env (exchange (PDict [])) ''alerts.json'' stale_state)) =
     alert_table stale_state" by blast
  from r1 r2 m p n show ?thesis by blast
qed


lemma bind_float_stored:
  "v = PNone \<or> py_float e v \<noteq> None \<Longrightarrow> bind_float e v = Inr (stored_float e v)"
  by (auto simp: bind_float_def stored_float_def)

lemma bind_float_coerced:
  "py_float e v = Some x \<Longrightarrow> bind_float e (PFloat x) = Inr (stored_float e v)"
  by (simp add: bind_float_def stored_float_def)

lemma load_item_well_formed:
  assumes "well_formed e item"
  shows "\<exists>a. load_item e idx item fresh_acc = add_record a fresh_acc \<and>
             bind_float e (lat a) = Inr (stored_float e (field ''lat'' item)) \<and>
             bind_float e (lng a) = Inr (stored_float e (field ''lng'' item)) \<and>
             a\<lparr>alert_id := Some (Suc idx), lat := stored_float e (field ''lat'' item),
               lng := stored_float e (field ''lng'' item)\<rparr> = stored_record e idx item"
proof -
  from assms obtain d where d: "item = PDict d"
    by (cases item) (simp_all add: well_formed_def)
  let ?lat = "dict_get d ''lat'' PNone" and ?lng = "dict_get d ''lng'' PNone"
  from assms have t: "truthy (dict_get d ''title'' PNone)" "truthy (dict_get d ''message'' PNone)"
    and la: "?lat = PNone \<or> py_float e ?lat \<noteq> None"
    and ln: "?lng = PNone \<or> py_float e ?lng \<noteq> None"
    unfolding d well_formed_def field_def by simp_all
  have f: "field ''lat'' item = ?lat" "field ''lng'' item = ?lng"
    "field ''title'' item = dict_get d ''title'' PNone"
    "field ''message'' item = dict_get d ''message'' PNone"
    "field_or ''source'' (PStr ''unknown'') item = dict_get d ''source'' (PStr ''unknown'')"
    "field_or ''severity'' (PStr ''info'') item = dict_get d ''severity'' (PStr ''info'')"
    by (simp_all add: field_def field_or_def d)
  let ?row = "\<lambda>la ln.
      \<lparr>alert_id = None, source = py_str e (dict_get d ''source'' (PStr ''unknown'')),
       severity = py_str e (dict_get d ''severity'' (PStr ''info'')),
       title = py_str e (dict_get d ''title'' PNone),
       message = py_str e (dict_get d ''message'' PNone), time = utcnow e idx,
       lat = la, lng = ln\<rparr>"
  show ?thesis
  proof (cases "?lat \<noteq> PNone \<and> ?lng \<noteq> PNone")
    case True
    with la ln obtain x y where xy: "py_float e ?lat = Some x" "py_float e ?lng = Some y"
      by auto
    have "load_item e idx item fresh_acc = add_record (?row (PFloat x) (PFloat y)) fresh_acc"
      unfolding d load_item_PDict using t True xy by simp
    moreover have "bind_float e (lat (?row (PFloat x) (PFloat y))) = Inr (stored_float e (field ''lat'' item))"
      using bind_float_coerced [OF xy(1)] by (simp add: f)
    moreover have "bind_float e (lng (?row (PFloat x) (PFloat y))) = Inr (stored_float e (field ''lng'' item))"
      using bind_float_coerced [OF xy(2)] by (simp add: f)
    moreover have "(?row (PFloat x) (PFloat y))\<lparr>alert_id := Some (Suc idx),
        lat := stored_float e (field ''lat'' item),
        lng := stored_float e (field ''lng'' item)\<rparr> = stored_record e idx item"
      by (simp add: stored_record_def f)
    ultimately show ?thesis by blast
  next
    case False
    have "load_item e idx item fresh_acc = add_record (?row ?lat ?lng) fresh_acc"
      unfolding d load_item_PDict using t False by auto
    moreover have "bind_float e (lat (?row ?lat ?lng)) = Inr (stored_float e (field ''lat'' item))"
      using bind_float_stored [OF la] by (simp add: f)
    moreover have "bind_float e (lng (?row ?lat ?lng)) = Inr (stored_float e (field ''lng'' item))"
      using bind_float_stored [OF ln] by (simp add: f)
    moreover have "(?row ?lat ?lng)\<lparr>alert_id := Some (Suc idx),
        lat := stored_float e (field ''lat'' item),
        lng := stored_float e (field ''lng'' item)\<rparr> = stored_record e idx item"
      by (simp add: stored_record_def f)
    ultimately show ?thesis by blast
  qed
qed

lemma sync_well_formed:
  assumes "\<forall>item\<in>set items. well_formed e item"
  shows "inserted (load_loop e idx items fresh_acc) = length items \<and>
         skipped (load_loop e idx items fresh_acc) = 0 \<and>
         skipped_details (load_loop e idx items fresh_acc) = [] \<and>
         flush_rows e (Suc idx) (session (load_loop e idx items fresh_acc)) =
           Inr (map (\<lambda>(i, item). stored_record e i item) (enumerate idx items))"
  using assms
proof (induction items arbitrary: idx)
  case Nil
  show ?case by (simp add: fresh_acc_def)
next
  case (Cons item items)
  from Cons.prems have wf: "well_formed e item" by simp
  from load_item_well_formed [OF wf, of idx] obtain a where
    a: "load_item e idx item fresh_acc = add_record a fresh_acc"
       "bind_float e (lat a) = Inr (stored_float e (field ''lat'' item))"
       "bind_float e (lng a) = Inr (stored_float e (field ''lng'' item))"
       "a\<lparr>alert_id := Some (Suc idx), lat := stored_float e (field ''lat'' item),
          lng := stored_float e (field ''lng'' item)\<rparr> = stored_record e idx item"
    by blast
  from Cons.prems have "\<forall>item\<in>set items. well_formed e item" by simp
  from Cons.IH [OF this, of "Suc idx"] show ?case
    unfolding load_loop_Cons_merge a(1)
    by (simp add: merge_acc_def add_record_def fresh_acc_def a(2,3,4))
qed

text \<open>
  Claim C3. Synchronising an array of N well-formed records returns \<open>inserted = N\<close>,
  \<open>skipped = 0\<close> and no skip reason, and the store then holds exactly the N rows of those
  records, in their order, whatever it held before: every earlier row is deleted before
  the first insertion.
\<close>

theorem sync_round_trip:
  assumes "files file_path = Parsed (PList data)"
    and "\<forall>item\<in>set data. well_formed e item"
  shows "load_alerts_from_json e files file_path st =
           (Summary (length data) 0 [],
            st\<lparr>alert_table := map (\<lambda>(idx, item). stored_record e idx item) (enumerate 0 data)\<rparr>)"
proof -
  note w = sync_well_formed [OF assms(2), of 0]
  have c: "commit_rows e (session (load_loop e 0 data fresh_acc)) =
      Inr (map (\<lambda>(idx, item). stored_record e idx item) (enumerate 0 data))"
    unfolding commit_rows_def using w by simp
  show ?thesis
    unfolding load_parsed_list [where files = files and file_path = file_path, OF assms(1)] c
    using w by simp
qed

theorem sync_round_trip_witness:
  "exchange two_records ''alerts.json'' = Parsed (PList [record_cyclone, record_note]) \<and>
   well_formed test_env record_cyclone \<and> well_formed test_env record_note \<and>
   load_alerts_from_json test_env (exchange two_records) ''alerts.json'' stale_state =
     (Summary 2 0 [],
      \<lparr>alert_table =
         [\<lparr>alert_id = Some 1, source = ''INCOIS'', severity = ''emergency'', title = ''Cyclone'',
           message = ''Stay in'', time = 1700000000, lat = PFloat 13, lng = PFloat 80\<rparr>,
          \<lparr>alert_id = Some 2, source = ''unknown'', severity = ''info'', title = ''Note'',
           message = ''No place'', time = 1700000001, lat = PNone, lng = PNone\<rparr>],
       last_error = None\<rparr>)"
proof -
  have f: "exchange two_records ''alerts.json'' = Parsed (PList [record_cyclone, record_note])"
    by (simp add: exchange_def two_records_def)
  have w1: "well_formed test_env record_cyclone"
    by (simp add: well_formed_def field_def dict_get_def record_cyclone_def float_limit_def)
  have w2: "well_formed test_env record_note"
    by (simp add: well_formed_def field_def dict_get_def record_note_def)
  from w1 w2 have w: "\<forall>item\<in>set [record_cyclone, record_note]. well_formed test_env item"
    by simp
  have r1: "stored_record test_env 0 record_cyclone =
      \<lparr>alert_id = Some 1, source = ''INCOIS'', severity = ''emergency'', title = ''Cyclone'',
       message = ''Stay in'', time = 1700000000, lat = PFloat 13, lng = PFloat 80\<rparr>"
    by (simp add: stored_record_def stored_float_def field_def field_or_def dict_get_def
        record_cyclone_def float_limit_def test_env_def)
  have r2: "stored_record test_env (Suc 0) record_note =
      \<lparr>alert_id = Some 2, source = ''unknown'', severity = ''info'', title = ''Note'',
       message = ''No place'', time = 1700000001, lat = PNone, lng = PNone\<rparr>"
    by (simp add: stored_record_def stored_float_def field_def field_or_def dict_get_def
        record_note_def test_env_def)
  from sync_round_trip [of "exchange two_records" "''alerts.json''"
         "[record_cyclone, record_note]" test_env stale_state, OF f w]
  have "load_alerts_from_json test_env (exchange two_records) ''alerts.json'' stale_state =
     (Summary 2 0 [],
      stale_state\<lparr>alert_table :=
         [stored_record test_env 0 record_cyclone, stored_record test_env (Suc 0) record_note]\<rparr>)"
    by (simp add: enumerate_eq_zip)
  then have "load_alerts_from_json test_env (exchange two_records) ''alerts.json'' stale_state =
     (Summary 2 0 [],
      \<lparr>alert_table =
         [\<lparr>alert_id = Some 1, source = ''INCOIS'', severity = ''emergency'', title = ''Cyclone'',
           message = ''Stay in'', time = 1700000000, lat = PFloat 13, lng = PFloat 80\<rparr>,
          \<lparr>alert_id = Some 2, source = ''unknown'', severity = ''info'', title = ''Note'',
           message = ''No place'', time = 1700000001, lat = PNone, lng = PNone\<rparr>],
       last_error = None\<rparr>)"
    unfolding r1 r2 by (simp add: stale_state_def)
  with f w1 w2 show ?thesis by blast
qed












text \<open>
  The commit is outside the handler of the loop body. A record with a lone \<open>lat\<close> that
  is no number passes the loop and makes the commit raise: the answer is the error
  dictionary, and the store, emptied before the loop, stays empty.
\<close>

lemma lone_invalid_lat_fails_commit:
  "load_alerts_from_json test_env (exchange (PList [record_swell, record_lone_lat]))
     ''alerts.json'' stale_state =
     (Failure ''could not convert to float'',
      \<lparr>alert_table = [], last_error = Some ''could not convert to float''\<rparr>)"
  by (simp add: load_alerts_from_json_def exchange_def record_swell_def record_lone_lat_def
      stale_state_def fresh_acc_def load_item_PDict dict_get_def add_record_def skip_record_def
      commit_rows_def bind_float_def set_last_error_def test_env_def)

end
